theory Spec2Isabelle
  imports Main "HOL-Library.Word" "HOL-Library.Sublist" "HOL-Library.Multiset"
begin

section \<open>JavaScript strings and values\<close>

text \<open>
  The client is the TypeScript class \<^verbatim>\<open>CanvasAPI\<close>; its settings are \<^verbatim>\<open>MyPluginSettings\<close>. A
  JavaScript string is a sequence of UTF-16 code units, so it is modelled as a list of
  16-bit words; \<open>ascii\<close> writes the string literals of the source.
\<close>

type_synonym jsstring = "16 word list"

definition ascii :: "string \<Rightarrow> jsstring" where
  "ascii s = map of_char s"

text \<open>\<^verbatim>\<open>s.startsWith(t)\<close> and \<^verbatim>\<open>s.includes(t)\<close>.\<close>

definition startsWith :: "jsstring \<Rightarrow> jsstring \<Rightarrow> bool" where
  "startsWith s t = prefix t s"

definition includes_str :: "jsstring \<Rightarrow> jsstring \<Rightarrow> bool" where
  "includes_str s t = sublist t s"

text \<open>
  \<^verbatim>\<open>s.replace(/\/$/, '')\<close>: the pattern has no flag, so \<open>$\<close> matches at the end of the
  input only, and the one slash that stands there (if any) is replaced by nothing.
\<close>

definition replace_trailing_slash :: "jsstring \<Rightarrow> jsstring" where
  "replace_trailing_slash s = (if s \<noteq> [] \<and> last s = 0x2F then butlast s else s)"

text \<open>\<^verbatim>\<open>xs.join(sep)\<close> on a list of strings.\<close>

fun join :: "jsstring \<Rightarrow> jsstring list \<Rightarrow> jsstring" where
  "join sep [] = []"
| "join sep [x] = x"
| "join sep (x # y # ys) = x @ sep @ join sep (y # ys)"

text \<open>\<^verbatim>\<open>s.split(sep)\<close> for a separator of one character: the pieces between its occurrences.\<close>

fun split_at :: "16 word \<Rightarrow> jsstring \<Rightarrow> jsstring list" where
  "split_at sep [] = [[]]"
| "split_at sep (c # cs) =
    (if c = sep then [] # split_at sep cs
     else (case split_at sep cs of [] \<Rightarrow> [[c]] | p # ps \<Rightarrow> (c # p) # ps))"

text \<open>
  Decimal digits of a natural number (\<open>digits\<close>, for a status code) and of an integer that
  is not negative (\<open>decimal\<close>), and the string conversion of a number. The
  numbers of the model are the integers from \<open>- 2 ^ 53\<close> to \<open>2 ^ 53 - 1\<close>, a 54-bit word read
  as two's complement: JavaScript holds each of them exactly and prints it in plain
  decimal. Other numbers (fractions, larger magnitudes, \<^verbatim>\<open>NaN\<close>, the infinities) are not
  values of the model.
\<close>

fun digits :: "nat \<Rightarrow> jsstring" where
  "digits n = (if n < 10 then [of_nat (48 + n)] else digits (n div 10) @ [of_nat (48 + n mod 10)])"

declare digits.simps [simp del]

function decimal :: "int \<Rightarrow> jsstring" where
  "decimal n = (if n < 10 then [of_int (48 + n)] else decimal (n div 10) @ [of_int (48 + n mod 10)])"
  by pat_completeness auto
termination
  by (relation "measure nat") auto

declare decimal.simps [simp del]

definition Number_toString :: "54 word \<Rightarrow> jsstring" where
  "Number_toString n = (if sint n < 0 then 0x2D # decimal (- sint n) else decimal (sint n))"

text \<open>
  The values of type \<^verbatim>\<open>any\<close> in the model: \<^verbatim>\<open>undefined\<close>, \<^verbatim>\<open>null\<close>, booleans, numbers,
  strings, and arrays of such values. Other objects are not values of the model: what
  \<^verbatim>\<open>String\<close> does with an object depends on the \<^verbatim>\<open>toString\<close> the object has.
\<close>

datatype jsvalue =
    JUndefined
  | JNull
  | JBool bool
  | JNum "54 word"
  | JStr jsstring
  | JArr "jsvalue list"

text \<open>
  \<^verbatim>\<open>String(value)\<close>, also the conversion inside a template literal. An array prints its
  elements joined by commas, \<^verbatim>\<open>null\<close> and \<^verbatim>\<open>undefined\<close> elements as the empty string.
\<close>

fun ToString :: "jsvalue \<Rightarrow> jsstring"
  and element_strings :: "jsvalue list \<Rightarrow> jsstring list" where
  "ToString JUndefined = ascii ''undefined''"
| "ToString JNull = ascii ''null''"
| "ToString (JBool b) = (if b then ascii ''true'' else ascii ''false'')"
| "ToString (JNum n) = Number_toString n"
| "ToString (JStr s) = s"
| "ToString (JArr xs) = join (ascii '','') (element_strings xs)"
| "element_strings [] = []"
| "element_strings (JUndefined # xs) = [] # element_strings xs"
| "element_strings (JNull # xs) = [] # element_strings xs"
| "element_strings (x # xs) = ToString x # element_strings xs"

text \<open>Truthiness, as \<^verbatim>\<open>if (x)\<close>, \<^verbatim>\<open>x && y\<close> and \<^verbatim>\<open>x ? a : b\<close> test it.\<close>

fun truthy :: "jsvalue \<Rightarrow> bool" where
  "truthy JUndefined = False"
| "truthy JNull = False"
| "truthy (JBool b) = b"
| "truthy (JNum n) = (n \<noteq> 0)"
| "truthy (JStr s) = (s \<noteq> [])"
| "truthy (JArr xs) = True"

section \<open>Percent-encoding\<close>

text \<open>
  Both encoders of the platform work on the UTF-8 bytes of the code points of the
  string. A code point above \<open>0xFFFF\<close> is a high surrogate followed by a low one.
\<close>

definition is_high_surrogate :: "16 word \<Rightarrow> bool" where
  "is_high_surrogate c = (0xD800 \<le> c \<and> c \<le> 0xDBFF)"

definition is_low_surrogate :: "16 word \<Rightarrow> bool" where
  "is_low_surrogate c = (0xDC00 \<le> c \<and> c \<le> 0xDFFF)"

definition pair_code_point :: "16 word \<Rightarrow> 16 word \<Rightarrow> nat" where
  "pair_code_point hi lo = 0x10000 + (unat hi - 0xD800) * 0x400 + (unat lo - 0xDC00)"

definition utf8 :: "nat \<Rightarrow> 8 word list" where
  "utf8 cp =
    (if cp < 0x80 then [of_nat cp]
     else if cp < 0x800 then [of_nat (0xC0 + cp div 0x40), of_nat (0x80 + cp mod 0x40)]
     else if cp < 0x10000 then
       [of_nat (0xE0 + cp div 0x1000), of_nat (0x80 + cp div 0x40 mod 0x40),
        of_nat (0x80 + cp mod 0x40)]
     else
       [of_nat (0xF0 + cp div 0x40000), of_nat (0x80 + cp div 0x1000 mod 0x40),
        of_nat (0x80 + cp div 0x40 mod 0x40), of_nat (0x80 + cp mod 0x40)])"

definition hex_digit :: "nat \<Rightarrow> 16 word" where
  "hex_digit d = ascii ''0123456789ABCDEF'' ! d"

definition percent_byte :: "8 word \<Rightarrow> jsstring" where
  "percent_byte b = [0x25, hex_digit (unat b div 16), hex_digit (unat b mod 16)]"

definition percent_bytes :: "8 word list \<Rightarrow> jsstring" where
  "percent_bytes bs = concat (map percent_byte bs)"

definition is_alphanumeric :: "16 word \<Rightarrow> bool" where
  "is_alphanumeric c =
    ((0x30 \<le> c \<and> c \<le> 0x39) \<or> (0x41 \<le> c \<and> c \<le> 0x5A) \<or> (0x61 \<le> c \<and> c \<le> 0x7A))"

text \<open>
  \<^verbatim>\<open>encodeURIComponent(s)\<close>: letters, digits and \<^verbatim>\<open>- _ . ! ~ * ' ( )\<close> stay; every other
  code point becomes the percent-escapes of its UTF-8 bytes. A surrogate that is not
  part of a pair makes it throw \<^verbatim>\<open>URIError\<close>: the result is \<open>None\<close> then.
\<close>

definition uri_unreserved :: "16 word \<Rightarrow> bool" where
  "uri_unreserved c = (is_alphanumeric c \<or> c \<in> set (ascii ''-_.!~*'' @ [0x27] @ ascii ''()''))"

fun encodeURIComponent :: "jsstring \<Rightarrow> jsstring option" where
  "encodeURIComponent [] = Some []"
| "encodeURIComponent [c] =
    (if uri_unreserved c then Some [c]
     else if is_high_surrogate c \<or> is_low_surrogate c then None
     else Some (percent_bytes (utf8 (unat c))))"
| "encodeURIComponent (c # d # ds) =
    (if uri_unreserved c then
       (case encodeURIComponent (d # ds) of None \<Rightarrow> None | Some r \<Rightarrow> Some (c # r))
     else if is_high_surrogate c then
       (if is_low_surrogate d then
          (case encodeURIComponent ds of
             None \<Rightarrow> None
           | Some r \<Rightarrow> Some (percent_bytes (utf8 (pair_code_point c d)) @ r))
        else None)
     else if is_low_surrogate c then None
     else
       (case encodeURIComponent (d # ds) of
          None \<Rightarrow> None
        | Some r \<Rightarrow> Some (percent_bytes (utf8 (unat c)) @ r)))"

text \<open>
  The serializer of \<^verbatim>\<open>URLSearchParams\<close> (\<^verbatim>\<open>application/x-www-form-urlencoded\<close>): letters,
  digits and \<^verbatim>\<open>* - . _\<close> stay, a space becomes \<^verbatim>\<open>+\<close>, every other code point becomes the
  percent-escapes of its UTF-8 bytes. It never throws: a surrogate that is not part of
  a pair is replaced by U+FFFD when the string enters the parameter list.
\<close>

definition form_unreserved :: "16 word \<Rightarrow> bool" where
  "form_unreserved c = (is_alphanumeric c \<or> c \<in> set (ascii ''*-._''))"

fun form_urlencode :: "jsstring \<Rightarrow> jsstring" where
  "form_urlencode [] = []"
| "form_urlencode [c] =
    (if form_unreserved c then [c]
     else if c = 0x20 then [0x2B]
     else if is_high_surrogate c \<or> is_low_surrogate c then percent_bytes (utf8 0xFFFD)
     else percent_bytes (utf8 (unat c)))"
| "form_urlencode (c # d # ds) =
    (if form_unreserved c then c # form_urlencode (d # ds)
     else if c = 0x20 then 0x2B # form_urlencode (d # ds)
     else if is_high_surrogate c \<and> is_low_surrogate d then
       percent_bytes (utf8 (pair_code_point c d)) @ form_urlencode ds
     else if is_high_surrogate c \<or> is_low_surrogate c then
       percent_bytes (utf8 0xFFFD) @ form_urlencode (d # ds)
     else percent_bytes (utf8 (unat c)) @ form_urlencode (d # ds))"

text \<open>
  \<^verbatim>\<open>URLSearchParams\<close>: an ordered list of name-value pairs. \<^verbatim>\<open>append\<close> adds a pair at the
  end; \<^verbatim>\<open>toString\<close> writes \<^verbatim>\<open>name=value\<close> for each pair, joined by \<^verbatim>\<open>&\<close>.
\<close>

type_synonym URLSearchParams = "(jsstring \<times> jsstring) list"

definition append_param :: "URLSearchParams \<Rightarrow> jsstring \<Rightarrow> jsstring \<Rightarrow> URLSearchParams" where
  "append_param queryParams name v = queryParams @ [(name, v)]"

definition URLSearchParams_toString :: "URLSearchParams \<Rightarrow> jsstring" where
  "URLSearchParams_toString queryParams =
    join (ascii ''&'')
      (map (\<lambda>(name, v). form_urlencode name @ ascii ''='' @ form_urlencode v) queryParams)"

text \<open>
  \<^verbatim>\<open>JSON.stringify(value)\<close> without indentation. A string is quoted; inside it the quote,
  the backslash and the control characters are escaped, and so is a surrogate that is
  not part of a pair. The result is \<open>None\<close> where JavaScript gives \<^verbatim>\<open>undefined\<close>.
\<close>

definition unicode_escape :: "16 word \<Rightarrow> jsstring" where
  "unicode_escape c =
    (let low_hex = (\<lambda>d. ascii ''0123456789abcdef'' ! d); u = unat c
     in [0x5C, 0x75, low_hex (u div 4096), low_hex (u div 256 mod 16),
         low_hex (u div 16 mod 16), low_hex (u mod 16)])"

definition json_escape :: "16 word \<Rightarrow> jsstring" where
  "json_escape c =
    (if c = 0x08 then [0x5C, 0x62]
     else if c = 0x09 then [0x5C, 0x74]
     else if c = 0x0A then [0x5C, 0x6E]
     else if c = 0x0C then [0x5C, 0x66]
     else if c = 0x0D then [0x5C, 0x72]
     else if c = 0x22 then [0x5C, 0x22]
     else if c = 0x5C then [0x5C, 0x5C]
     else if c < 0x20 \<or> is_high_surrogate c \<or> is_low_surrogate c then unicode_escape c
     else [c])"

fun json_escape_all :: "jsstring \<Rightarrow> jsstring" where
  "json_escape_all [] = []"
| "json_escape_all [c] = json_escape c"
| "json_escape_all (c # d # ds) =
    (if is_high_surrogate c \<and> is_low_surrogate d then c # d # json_escape_all ds
     else json_escape c @ json_escape_all (d # ds))"

definition QuoteJSONString :: "jsstring \<Rightarrow> jsstring" where
  "QuoteJSONString s = [0x22] @ json_escape_all s @ [0x22]"

fun JSON_stringify :: "jsvalue \<Rightarrow> jsstring option"
  and JSON_elements :: "jsvalue list \<Rightarrow> jsstring list" where
  "JSON_stringify JUndefined = None"
| "JSON_stringify JNull = Some (ascii ''null'')"
| "JSON_stringify (JBool b) = Some (if b then ascii ''true'' else ascii ''false'')"
| "JSON_stringify (JNum n) = Some (Number_toString n)"
| "JSON_stringify (JStr s) = Some (QuoteJSONString s)"
| "JSON_stringify (JArr xs) = Some (ascii ''['' @ join (ascii '','') (JSON_elements xs) @ ascii '']'')"
| "JSON_elements [] = []"
| "JSON_elements (x # xs) =
    (case JSON_stringify x of None \<Rightarrow> ascii ''null'' | Some t \<Rightarrow> t) # JSON_elements xs"

section \<open>Objects\<close>

text \<open>
  The parameters of a request are an object with string keys. An object is the list
  of its properties in the order in which they were created (its insertion order),
  every key once. The assignment \<^verbatim>\<open>obj.key = v\<close> gives an existing property the new value
  where it stands, and puts a new property at the end.
\<close>

type_synonym jsobject = "(jsstring \<times> jsvalue) list"

fun set_property :: "jsobject \<Rightarrow> jsstring \<Rightarrow> jsvalue \<Rightarrow> jsobject" where
  "set_property [] key v = [(key, v)]"
| "set_property ((k, w) # obj) key v =
    (if k = key then (k, v) # obj else (k, w) # set_property obj key v)"

text \<open>
  A key is an array index when it is the decimal numeral, without leading zeros, of an
  integer from 0 to \<open>2 ^ 32 - 2\<close>. \<^verbatim>\<open>Object.entries(obj)\<close> and \<^verbatim>\<open>Object.keys(obj)\<close> list the
  properties whose keys are array indices first, in ascending numeric order, and then
  the other properties in insertion order.
\<close>

definition is_digit :: "16 word \<Rightarrow> bool" where
  "is_digit c = (0x30 \<le> c \<and> c \<le> 0x39)"

definition decimal_value :: "jsstring \<Rightarrow> int" where
  "decimal_value s = foldl (\<lambda>n c. 10 * n + (uint c - 48)) 0 s"

definition array_index :: "jsstring \<Rightarrow> int option" where
  "array_index key =
    (if key \<noteq> [] \<and> list_all is_digit key \<and> (key = [0x30] \<or> hd key \<noteq> 0x30)
        \<and> decimal_value key \<le> 4294967294
     then Some (decimal_value key) else None)"

definition index_value :: "jsstring \<times> jsvalue \<Rightarrow> int" where
  "index_value p = (case array_index (fst p) of None \<Rightarrow> 0 | Some i \<Rightarrow> i)"

definition Object_entries :: "jsobject \<Rightarrow> (jsstring \<times> jsvalue) list" where
  "Object_entries obj =
    sort_key index_value (filter (\<lambda>p. array_index (fst p) \<noteq> None) obj)
    @ filter (\<lambda>p. array_index (fst p) = None) obj"

definition Object_keys :: "jsobject \<Rightarrow> jsstring list" where
  "Object_keys obj = map fst (Object_entries obj)"

section \<open>The settings and the client\<close>

record MyPluginSettings =
  mySetting :: jsstring
  canvasApiUrl :: jsstring
  canvasApiToken :: jsstring
  useProxy :: bool
  corsProxyUrl :: jsstring

record CanvasAPI =
  apiUrl :: jsstring
  accessToken :: jsstring
  useProxy :: bool
  corsProxyUrl :: jsstring

definition DEFAULT_SETTINGS :: MyPluginSettings where
  "DEFAULT_SETTINGS =
    \<lparr>mySetting = ascii ''default'',
     canvasApiUrl = ascii ''https://canvas.instructure.com'',
     canvasApiToken = [],
     useProxy = False,
     corsProxyUrl = ascii ''https://cors-anywhere.herokuapp.com/''\<rparr>"

definition "constructor" :: "MyPluginSettings \<Rightarrow> CanvasAPI" where
  "constructor settings =
    \<lparr>apiUrl = replace_trailing_slash (canvasApiUrl settings),
     accessToken = canvasApiToken settings,
     useProxy = MyPluginSettings.useProxy settings,
     corsProxyUrl = MyPluginSettings.corsProxyUrl settings\<rparr>"

section \<open>The network\<close>

text \<open>
  Obsidian's \<^verbatim>\<open>requestUrl\<close> is the one effect of the client. The network is a state:
  what it answers to each request (a response, or a rejection of the promise), and the
  requests sent so far. The client reads \<^verbatim>\<open>status\<close>, \<^verbatim>\<open>text\<close> and \<^verbatim>\<open>json\<close> of a response.
\<close>

record RequestUrlParam =
  url :: jsstring
  "method" :: jsstring
  headers :: "(jsstring \<times> jsstring) list"
  body :: "jsstring option"
  throw :: bool

record 'j RequestUrlResponse =
  status :: nat
  "text" :: jsstring
  json :: 'j

record ('e, 'j) network =
  respond :: "RequestUrlParam \<Rightarrow> 'e + 'j RequestUrlResponse"
  sent :: "RequestUrlParam list"

definition requestUrl ::
  "RequestUrlParam \<Rightarrow> ('e, 'j) network \<Rightarrow> ('e + 'j RequestUrlResponse) \<times> ('e, 'j) network" where
  "requestUrl request net = (respond net request, net\<lparr>sent := sent net @ [request]\<rparr>)"

text \<open>
  A network for trying the client out: nothing sent yet, and the same response to
  every request.
\<close>

definition simulated :: "'j RequestUrlResponse \<Rightarrow> ('e, 'j) network" where
  "simulated response = \<lparr>respond = (\<lambda>request. Inr response), sent = []\<rparr>"

text \<open>
  What a promise of the client rejects with: the \<^verbatim>\<open>Error\<close> that \<^verbatim>\<open>_request\<close> throws on an
  error status, with its message; the \<^verbatim>\<open>URIError\<close> of \<^verbatim>\<open>encodeURIComponent\<close>; or whatever
  \<^verbatim>\<open>requestUrl\<close> rejected with.
\<close>

datatype 'e error =
    Error jsstring
  | URIError
  | RequestUrlRejected 'e

text \<open>
  A \<^verbatim>\<open>try\<close> block with its \<^verbatim>\<open>catch\<close> handler: a promise that rejects is \<open>Inl\<close>, one that
  resolves is \<open>Inr\<close>.
\<close>

definition try_catch ::
  "('x + 'a) \<times> 's \<Rightarrow> ('x \<Rightarrow> 's \<Rightarrow> ('x + 'a) \<times> 's) \<Rightarrow> ('x + 'a) \<times> 's" where
  "try_catch attempt handler =
    (case attempt of (Inl e, s) \<Rightarrow> handler e s | (Inr v, s) \<Rightarrow> (Inr v, s))"

section \<open>The request primitive\<close>

text \<open>\<^verbatim>\<open>_request\<close>, lines 148 to 156: the leading slash, then the API version.\<close>

definition normalize_endpoint :: "jsstring \<Rightarrow> jsstring" where
  "normalize_endpoint endpoint =
    (let endpoint = (if \<not> startsWith endpoint (ascii ''/'') then ascii ''/'' @ endpoint
                     else endpoint)
     in if \<not> includes_str endpoint (ascii ''/api/v1'') then ascii ''/api/v1'' @ endpoint
        else endpoint)"

text \<open>Lines 158 to 168: the full URL, with the query parameters when there are any.\<close>

definition query_params :: "jsobject \<Rightarrow> URLSearchParams" where
  "query_params params =
    foldl (\<lambda>queryParams (key, v). append_param queryParams key (ToString v)) []
      (Object_entries params)"

definition query_string :: "(jsstring \<times> jsvalue) list \<Rightarrow> jsstring" where
  "query_string params = URLSearchParams_toString (query_params params)"

definition build_url :: "CanvasAPI \<Rightarrow> jsstring \<Rightarrow> (jsstring \<times> jsvalue) list \<Rightarrow> jsstring" where
  "build_url api endpoint params =
    (let url = apiUrl api @ endpoint
     in if length (Object_keys params) > 0 then url @ ascii ''?'' @ query_string params
        else url)"

text \<open>Lines 170 to 174: the CORS proxy, used when it is enabled and its URL is not empty.\<close>

definition proxy_url :: "CanvasAPI \<Rightarrow> jsstring \<Rightarrow> 'e error + jsstring" where
  "proxy_url api target =
    (if useProxy api \<and> corsProxyUrl api \<noteq> [] then
       (case encodeURIComponent target of
          None \<Rightarrow> Inl URIError
        | Some encoded \<Rightarrow> Inr (corsProxyUrl api @ encoded))
     else Inr target)"

text \<open>
  The whole of \<^verbatim>\<open>_request\<close> (an Isabelle name cannot start with an underscore). The
  messages written to the console are left out.
\<close>

definition request ::
  "CanvasAPI \<Rightarrow> jsstring \<Rightarrow> jsstring \<Rightarrow> (jsstring \<times> jsvalue) list \<Rightarrow> jsvalue \<Rightarrow>
   ('e, 'j) network \<Rightarrow> ('e error + 'j) \<times> ('e, 'j) network" where
  "request api endpoint method' params data net =
    try_catch
      (case proxy_url api (build_url api (normalize_endpoint endpoint) params) of
         Inl e \<Rightarrow> (Inl e, net)
       | Inr final \<Rightarrow>
           (let hdrs = [(ascii ''Authorization'', ascii ''Bearer '' @ accessToken api),
                        (ascii ''Content-Type'', ascii ''application/json'')];
                (answer, net') =
                  requestUrl
                    \<lparr>url = final, method = method', headers = hdrs,
                     body = (if truthy data then JSON_stringify data else None),
                     throw = False\<rparr> net
            in case answer of
                 Inl e \<Rightarrow> (Inl (RequestUrlRejected e), net')
               | Inr response \<Rightarrow>
                   if status response \<ge> 400 then
                     (Inl (Error (ascii ''Canvas API request failed: '' @ digits (status response)
                                  @ ascii '' - '' @ text response)), net')
                   else (Inr (json response), net')))
      (\<lambda>error net'. (Inl error, net'))"

section \<open>The public operations\<close>

text \<open>
  Each operation is one call of \<^verbatim>\<open>_request\<close>. Where the source leaves an argument out, its
  default is written here: the method \<^verbatim>\<open>GET\<close>, the empty parameters, the data \<^verbatim>\<open>null\<close>.
\<close>

definition getUserProfile :: "CanvasAPI \<Rightarrow> ('e, 'j) network \<Rightarrow> ('e error + 'j) \<times> ('e, 'j) network" where
  "getUserProfile api net = request api (ascii ''/users/self'') (ascii ''GET'') [] JNull net"

text \<open>
  An optional argument that is left out is \<^verbatim>\<open>undefined\<close>, here \<open>None\<close>; \<^verbatim>\<open>if (s)\<close> on a
  string holds when the string is there and not empty.
\<close>

definition getCourses ::
  "CanvasAPI \<Rightarrow> jsstring option \<Rightarrow> jsstring option \<Rightarrow> ('e, 'j) network \<Rightarrow>
   ('e error + 'j) \<times> ('e, 'j) network" where
  "getCourses api enrollmentType enrollmentState net =
    (let params = [(ascii ''per_page'', JNum 50)];
         params = (case enrollmentType of
                     None \<Rightarrow> params
                   | Some t \<Rightarrow> if t \<noteq> [] then set_property params (ascii ''enrollment_type'') (JStr t)
                               else params);
         params = (case enrollmentState of
                     None \<Rightarrow> params
                   | Some t \<Rightarrow> if t \<noteq> [] then set_property params (ascii ''enrollment_state'') (JStr t)
                               else params)
     in request api (ascii ''/courses'') (ascii ''GET'') params JNull net)"


definition getCourseModules ::
  "CanvasAPI \<Rightarrow> jsvalue \<Rightarrow> ('e, 'j) network \<Rightarrow> ('e error + 'j) \<times> ('e, 'j) network" where
  "getCourseModules api courseId net =
    request api (ascii ''/courses/'' @ ToString courseId @ ascii ''/modules'') (ascii ''GET'')
      [(ascii ''per_page'', JNum 50)] JNull net"



definition getCourseGrades :: "CanvasAPI \<Rightarrow> ('e, 'j) network \<Rightarrow> ('e error + 'j) \<times> ('e, 'j) network" where
  "getCourseGrades api net =
    request api (ascii ''/courses'') (ascii ''GET'')
      [(ascii ''include'',
          JArr [JStr (ascii ''total_scores''), JStr (ascii ''current_grading_period_scores'')]),
       (ascii ''enrollment_type'', JStr (ascii ''student'')),
       (ascii ''enrollment_state'', JStr (ascii ''active'')),
       (ascii ''per_page'', JNum 50)] JNull net"

definition testConnection :: "CanvasAPI \<Rightarrow> ('e, 'j) network \<Rightarrow> ('e error + bool) \<times> ('e, 'j) network" where
  "testConnection api net =
    try_catch
      (case getUserProfile api net of
         (Inl e, net') \<Rightarrow> (Inl e, net')
       | (Inr profile, net') \<Rightarrow> (Inr True, net'))
      (\<lambda>error net'. (Inr False, net'))"



section \<open>What a request does\<close>

text \<open>
  \<^verbatim>\<open>_request\<close> in one equation: no request leaves when the proxy URL cannot be built;
  otherwise one request is sent and the answer decides the result.
\<close>

lemma request_unfold:
  "request api endpoint m params data net =
    (case proxy_url api (build_url api (normalize_endpoint endpoint) params) of
       Inl e \<Rightarrow> (Inl e, net)
     | Inr final \<Rightarrow>
         (let rq = \<lparr>url = final, method = m,
                    headers = [(ascii ''Authorization'', ascii ''Bearer '' @ accessToken api),
                               (ascii ''Content-Type'', ascii ''application/json'')],
                    body = (if truthy data then JSON_stringify data else None), throw = False\<rparr>
          in (case respond net rq of
                Inl e \<Rightarrow> Inl (RequestUrlRejected e)
              | Inr response \<Rightarrow>
                  if status response \<ge> 400 then
                    Inl (Error (ascii ''Canvas API request failed: '' @ digits (status response)
                                @ ascii '' - '' @ text response))
                  else Inr (json response),
              net\<lparr>sent := sent net @ [rq]\<rparr>)))"
  by (simp add: request_def try_catch_def requestUrl_def Let_def split: sum.splits)

section \<open>Construction\<close>

lemma replace_trailing_slash_snoc: "replace_trailing_slash (base @ [0x2F]) = base"
  by (simp add: replace_trailing_slash_def)

lemma replace_trailing_slash_none:
  "\<not> suffix [0x2F] s \<Longrightarrow> replace_trailing_slash s = s"
  by (cases s rule: rev_cases) (simp_all add: replace_trailing_slash_def)

text \<open>
  C6. The constructor stores the configured base URL with one trailing slash removed:
  a base URL that is \<open>base\<close> followed by a slash is stored as \<open>base\<close> (whatever \<open>base\<close>
  ends with, so a second slash stays), and a base URL that does not end with a slash is
  stored as it is. The two cases cover every base URL, so the stored URL depends on
  nothing else.
\<close>

theorem constructor_strips_one_trailing_slash:
  "(canvasApiUrl settings = base @ ascii ''/'' \<longrightarrow> apiUrl (constructor settings) = base) \<and>
   (\<not> suffix (ascii ''/'') (canvasApiUrl settings) \<longrightarrow>
      apiUrl (constructor settings) = canvasApiUrl settings)"
  by (simp add: constructor_def ascii_def replace_trailing_slash_snoc replace_trailing_slash_none)

theorem constructor_strips_one_trailing_slash_witness:
  "apiUrl (constructor (DEFAULT_SETTINGS\<lparr>canvasApiUrl := ascii ''https://canvas.example//''\<rparr>))
     = ascii ''https://canvas.example/'' \<and>
   apiUrl (constructor DEFAULT_SETTINGS) = ascii ''https://canvas.instructure.com''"
proof -
  let ?a = "DEFAULT_SETTINGS\<lparr>canvasApiUrl := ascii ''https://canvas.example//''\<rparr>"
  have 1: "canvasApiUrl ?a = ascii ''https://canvas.example/'' @ ascii ''/''"
    by (simp add: ascii_def)
  have 2: "\<not> suffix (ascii ''/'') (canvasApiUrl DEFAULT_SETTINGS)"
    by (simp add: DEFAULT_SETTINGS_def ascii_def suffix_def)
  have A: "apiUrl (constructor ?a) = ascii ''https://canvas.example/''"
    by (rule constructor_strips_one_trailing_slash [THEN conjunct1, rule_format, OF 1])
  have B: "apiUrl (constructor DEFAULT_SETTINGS) = canvasApiUrl DEFAULT_SETTINGS"
    by (rule constructor_strips_one_trailing_slash [THEN conjunct2, rule_format, OF 2])
  from A B show ?thesis by (simp add: DEFAULT_SETTINGS_def)
qed

section \<open>The connectivity probe\<close>

text \<open>
  C2. \<^verbatim>\<open>testConnection\<close> resolves with \<^verbatim>\<open>true\<close> exactly when \<^verbatim>\<open>getUserProfile\<close> resolves, and
  with \<^verbatim>\<open>false\<close> exactly when \<^verbatim>\<open>getUserProfile\<close> rejects, whatever the error (an HTTP
  error status, a rejected \<^verbatim>\<open>requestUrl\<close>, a URL that cannot be encoded); it never
  rejects itself, and it leaves the network as \<^verbatim>\<open>getUserProfile\<close> leaves it.
\<close>

theorem testConnection_reports:
  "(fst (testConnection api net) = Inr True \<longleftrightarrow>
      (\<exists>profile. fst (getUserProfile api net) = Inr profile)) \<and>
   (fst (testConnection api net) = Inr False \<longleftrightarrow>
      (\<exists>e. fst (getUserProfile api net) = Inl e)) \<and>
   (\<forall>e. fst (testConnection api net) \<noteq> Inl e) \<and>
   snd (testConnection api net) = snd (getUserProfile api net)"
  by (cases "getUserProfile api net"; cases "fst (getUserProfile api net)")
     (auto simp: testConnection_def try_catch_def)

theorem testConnection_reports_witness:
  "fst (testConnection (constructor DEFAULT_SETTINGS)
      (simulated \<lparr>status = 200, text = ascii ''{}'', json = ()\<rparr> :: (unit, unit) network)) = Inr True \<and>
   fst (testConnection (constructor DEFAULT_SETTINGS)
      (simulated \<lparr>status = 401, text = ascii ''Unauthorized'', json = ()\<rparr> :: (unit, unit) network))
     = Inr False \<and>
   fst (testConnection (constructor DEFAULT_SETTINGS)
      (\<lparr>respond = (\<lambda>request. Inl ()), sent = []\<rparr> :: (unit, unit) network)) = Inr False"
proof -
  let ?api = "constructor DEFAULT_SETTINGS"
  let ?ok = "simulated \<lparr>status = 200, text = ascii ''{}'', json = ()\<rparr> :: (unit, unit) network"
  let ?denied = "simulated \<lparr>status = 401, text = ascii ''Unauthorized'', json = ()\<rparr>
      :: (unit, unit) network"
  let ?down = "\<lparr>respond = (\<lambda>request. Inl ()), sent = []\<rparr> :: (unit, unit) network"
  have off: "\<not> useProxy ?api" by (simp add: constructor_def DEFAULT_SETTINGS_def)
  have 1: "\<exists>profile. fst (getUserProfile ?api ?ok) = Inr profile"
    using off by (simp add: getUserProfile_def request_unfold proxy_url_def Let_def simulated_def)
  have 2: "\<exists>e. fst (getUserProfile ?api ?denied) = Inl e"
    using off by (simp add: getUserProfile_def request_unfold proxy_url_def Let_def simulated_def)
  have 3: "\<exists>e. fst (getUserProfile ?api ?down) = Inl e"
    using off by (simp add: getUserProfile_def request_unfold proxy_url_def Let_def)
  from testConnection_reports [of ?api ?ok, THEN conjunct1] 1
    testConnection_reports [of ?api ?denied, THEN conjunct2, THEN conjunct1] 2
    testConnection_reports [of ?api ?down, THEN conjunct2, THEN conjunct1] 3
  show ?thesis by blast
qed

section \<open>Courses\<close>

text \<open>
  C10. \<^verbatim>\<open>getCourses('', '')\<close> does what \<^verbatim>\<open>getCourses()\<close> does: the empty strings are
  falsy, so neither \<^verbatim>\<open>enrollment_type\<close> nor \<^verbatim>\<open>enrollment_state\<close> enters the parameters, and
  the two calls send the same request and give the same result.
\<close>

theorem getCourses_empty_strings:
  "getCourses api (Some []) (Some []) net = getCourses api None None net"
  by (simp add: getCourses_def)

theorem getCourses_empty_strings_witness:
  "map url (sent (snd (getCourses (constructor DEFAULT_SETTINGS) (Some []) (Some [])
      (simulated \<lparr>status = 200, text = [], json = ()\<rparr> :: (unit, unit) network)))) =
     [ascii ''https://canvas.instructure.com/api/v1/courses?per_page=50'']"
proof -
  let ?api = "constructor DEFAULT_SETTINGS"
  let ?net = "simulated \<lparr>status = 200, text = [], json = ()\<rparr> :: (unit, unit) network"
  have "map url (sent (snd (getCourses ?api None None ?net))) =
      [ascii ''https://canvas.instructure.com/api/v1/courses?per_page=50'']"
    by code_simp
  with getCourses_empty_strings [of ?api ?net] show ?thesis by simp
qed

section \<open>Endpoint paths\<close>

lemma length_version: "length (ascii ''/api/v1'') = 7"
  by (simp add: ascii_def)

lemma version_not_overlapping:
  assumes eq: "ascii ''/api/v1'' @ path = before @ ascii ''/api/v1'' @ after"
    and short: "length before < 7"
  shows "before = []"
proof (rule ccontr)
  assume ne: "before \<noteq> []"
  let ?k = "length before"
  have k: "0 < ?k" using ne by simp
  have l: "(ascii ''/api/v1'' @ path) ! ?k = ascii ''/api/v1'' ! ?k"
    using short by (simp add: nth_append length_version)
  have "(before @ ascii ''/api/v1'' @ after) ! ?k = ascii ''/api/v1'' ! 0"
    by (simp add: nth_append length_version)
  then have r: "(before @ ascii ''/api/v1'' @ after) ! ?k = 0x2F"
    by (simp add: ascii_def)
  from eq l r have "ascii ''/api/v1'' ! ?k = (0x2F :: 16 word)" by simp
  with k short have k4: "?k = 4"
    by (cases "?k" rule: nat.exhaust)
       (auto simp: ascii_def nth_Cons split: nat.splits)
  have "(ascii ''/api/v1'' @ path) ! 5 = ascii ''/api/v1'' ! 5"
    by (simp add: nth_append length_version)
  then have l5: "(ascii ''/api/v1'' @ path) ! 5 = (0x76 :: 16 word)"
    by (simp add: ascii_def)
  have "(before @ ascii ''/api/v1'' @ after) ! 5 = ascii ''/api/v1'' ! 1"
    using k4 by (simp add: nth_append length_version)
  then have r5: "(before @ ascii ''/api/v1'' @ after) ! 5 = (0x61 :: 16 word)"
    by (simp add: ascii_def)
  from eq l5 r5 show False by simp
qed

lemma version_at_front_only:
  assumes eq: "ascii ''/api/v1'' @ path = before @ ascii ''/api/v1'' @ after"
    and lacks: "\<not> includes_str path (ascii ''/api/v1'')"
  shows "before = []"
proof (cases "length before < 7")
  case True
  with eq show ?thesis by (rule version_not_overlapping)
next
  case False
  from eq have "drop 7 (ascii ''/api/v1'' @ path) = drop 7 (before @ ascii ''/api/v1'' @ after)"
    by simp
  with False have "path = drop 7 before @ ascii ''/api/v1'' @ after"
    by (simp add: length_version)
  then have "sublist (ascii ''/api/v1'') path"
    by (metis sublist_appendI)
  with lacks show ?thesis by (simp add: includes_str_def)
qed

lemma normalize_endpoint_cases:
  "normalize_endpoint endpoint =
    (if startsWith endpoint (ascii ''/'') then
       (if includes_str endpoint (ascii ''/api/v1'') then endpoint
        else ascii ''/api/v1'' @ endpoint)
     else
       (if includes_str (ascii ''/'' @ endpoint) (ascii ''/api/v1'') then ascii ''/'' @ endpoint
        else ascii ''/api/v1'' @ ascii ''/'' @ endpoint))"
  by (simp add: normalize_endpoint_def Let_def)

lemma normalize_endpoint_startsWith:
  "startsWith (normalize_endpoint endpoint) (ascii ''/'')"
  by (simp add: normalize_endpoint_cases startsWith_def ascii_def)

lemma normalize_endpoint_includes:
  "includes_str (normalize_endpoint endpoint) (ascii ''/api/v1'')"
  by (simp add: normalize_endpoint_cases includes_str_def)

lemma normalize_endpoint_idem:
  "normalize_endpoint (normalize_endpoint endpoint) = normalize_endpoint endpoint"
  using normalize_endpoint_startsWith [of endpoint] normalize_endpoint_includes [of endpoint]
  by (simp add: normalize_endpoint_cases [of "normalize_endpoint endpoint"])

lemma includes_str_after_slash:
  "includes_str endpoint t \<Longrightarrow> includes_str (ascii ''/'' @ endpoint) t"
  unfolding includes_str_def by (metis sublist_append)

text \<open>
  C4, as the code has it. The path that \<^verbatim>\<open>_request\<close> is given is normalized in two steps.
  A path that does not start with \<^verbatim>\<open>/\<close> gets one \<^verbatim>\<open>/\<close> in front, a path that starts with \<^verbatim>\<open>/\<close>
  is left as it is. Then the string \<^verbatim>\<open>/api/v1\<close> is looked for anywhere in the path with its
  leading slash: where it does not occur it is put in front, once; where it occurs, at
  the front or further on, as a segment or as the beginning of a longer one, the path
  is left as it is. So a path that contains \<^verbatim>\<open>/api/v1\<close> anywhere gets no version in front.
  Put in front of a path without it, \<^verbatim>\<open>/api/v1\<close> occurs once, at the front; the normalized
  path always starts with \<^verbatim>\<open>/\<close> and contains \<^verbatim>\<open>/api/v1\<close>; and normalizing a normalized path
  changes nothing, so the version is never inserted twice.
\<close>

theorem endpoint_normalization:
  "(\<not> startsWith endpoint (ascii ''/'') \<longrightarrow>
      normalize_endpoint endpoint =
        (if includes_str (ascii ''/'' @ endpoint) (ascii ''/api/v1'') then ascii ''/'' @ endpoint
         else ascii ''/api/v1'' @ ascii ''/'' @ endpoint)) \<and>
   (startsWith endpoint (ascii ''/'') \<longrightarrow>
      normalize_endpoint endpoint =
        (if includes_str endpoint (ascii ''/api/v1'') then endpoint
         else ascii ''/api/v1'' @ endpoint)) \<and>
   (\<forall>path before after.
      \<not> includes_str path (ascii ''/api/v1'') \<and>
      ascii ''/api/v1'' @ path = before @ ascii ''/api/v1'' @ after \<longrightarrow> before = [] \<and> after = path) \<and>
   normalize_endpoint (normalize_endpoint endpoint) = normalize_endpoint endpoint \<and>
   (includes_str endpoint (ascii ''/api/v1'') \<longrightarrow>
      normalize_endpoint endpoint =
        (if startsWith endpoint (ascii ''/'') then endpoint else ascii ''/'' @ endpoint)) \<and>
   startsWith (normalize_endpoint endpoint) (ascii ''/'') \<and>
   includes_str (normalize_endpoint endpoint) (ascii ''/api/v1'')"
proof (intro conjI allI impI)
  fix path before after :: jsstring
  assume h: "\<not> includes_str path (ascii ''/api/v1'') \<and>
      ascii ''/api/v1'' @ path = before @ ascii ''/api/v1'' @ after"
  then show "before = []"
    using version_at_front_only [of path before after] by blast
  with h show "after = path" by simp
next
  show "normalize_endpoint (normalize_endpoint endpoint) = normalize_endpoint endpoint"
    by (rule normalize_endpoint_idem)
next
  assume "includes_str endpoint (ascii ''/api/v1'')"
  then show "normalize_endpoint endpoint =
      (if startsWith endpoint (ascii ''/'') then endpoint else ascii ''/'' @ endpoint)"
    by (simp add: normalize_endpoint_cases includes_str_after_slash)
next
  show "startsWith (normalize_endpoint endpoint) (ascii ''/'')"
    by (rule normalize_endpoint_startsWith)
next
  show "includes_str (normalize_endpoint endpoint) (ascii ''/api/v1'')"
    by (rule normalize_endpoint_includes)
qed (simp_all add: normalize_endpoint_cases)

theorem endpoint_normalization_witness:
  "normalize_endpoint (ascii ''courses'') = ascii ''/api/v1/courses'' \<and>
   normalize_endpoint (ascii ''/courses'') = ascii ''/api/v1/courses'' \<and>
   normalize_endpoint (ascii ''/api/v1/courses'') = ascii ''/api/v1/courses'' \<and>
   normalize_endpoint (ascii ''api/v1/courses'') = ascii ''/api/v1/courses'' \<and>
   normalize_endpoint (ascii ''/api/v10/courses'') = ascii ''/api/v10/courses''"
proof -
  have a1: "\<not> startsWith (ascii ''courses'') (ascii ''/'')" by code_simp
  have a2: "\<not> includes_str (ascii ''/'' @ ascii ''courses'') (ascii ''/api/v1'')" by code_simp
  have a: "normalize_endpoint (ascii ''courses'') = ascii ''/api/v1'' @ ascii ''/'' @ ascii ''courses''"
    using endpoint_normalization [of "ascii ''courses''", THEN conjunct1, rule_format, OF a1] a2
    by simp
  have b1: "startsWith (ascii ''/courses'') (ascii ''/'')" by code_simp
  have b2: "\<not> includes_str (ascii ''/courses'') (ascii ''/api/v1'')" by code_simp
  have b: "normalize_endpoint (ascii ''/courses'') = ascii ''/api/v1'' @ ascii ''/courses''"
    using endpoint_normalization [of "ascii ''/courses''", THEN conjunct2, THEN conjunct1,
        rule_format, OF b1] b2
    by simp
  have c1: "startsWith (ascii ''/api/v1/courses'') (ascii ''/'')" by code_simp
  have c2: "includes_str (ascii ''/api/v1/courses'') (ascii ''/api/v1'')" by code_simp
  have c: "normalize_endpoint (ascii ''/api/v1/courses'') = ascii ''/api/v1/courses''"
    using endpoint_normalization [of "ascii ''/api/v1/courses''", THEN conjunct2, THEN conjunct1,
        rule_format, OF c1] c2
    by simp
  have d1: "\<not> startsWith (ascii ''api/v1/courses'') (ascii ''/'')" by code_simp
  have d2: "includes_str (ascii ''/'' @ ascii ''api/v1/courses'') (ascii ''/api/v1'')" by code_simp
  have d: "normalize_endpoint (ascii ''api/v1/courses'') = ascii ''/'' @ ascii ''api/v1/courses''"
    using endpoint_normalization [of "ascii ''api/v1/courses''", THEN conjunct1, rule_format, OF d1] d2
    by simp
  have e1: "includes_str (ascii ''/api/v10/courses'') (ascii ''/api/v1'')" by code_simp
  have e2: "startsWith (ascii ''/api/v10/courses'') (ascii ''/'')" by code_simp
  have e: "normalize_endpoint (ascii ''/api/v10/courses'') = ascii ''/api/v10/courses''"
    using endpoint_normalization [of "ascii ''/api/v10/courses''", THEN conjunct2, THEN conjunct2,
        THEN conjunct2, THEN conjunct2, THEN conjunct1, rule_format, OF e1] e2
    by simp
  from a b c d e show ?thesis by (simp add: ascii_def)
qed

text \<open>
  The claim C4 as it is written fails for a path that lacks the version segment and
  yet contains the string \<^verbatim>\<open>/api/v1\<close>: \<^verbatim>\<open>/api/v10/courses\<close> has the segments \<^verbatim>\<open>api\<close>,
  \<^verbatim>\<open>v10\<close> and \<^verbatim>\<open>courses\<close>, and nothing is put in front of it. Nor is the version a prefix
  of every normalized path: \<^verbatim>\<open>getCourseModules('x/api/v1')\<close> is sent to
  \<^verbatim>\<open>/courses/x/api/v1/modules\<close> under the base URL.
\<close>

theorem endpoint_normalization_counterexample:
  "split_at 0x2F (ascii ''/api/v10/courses'') = [[], ascii ''api'', ascii ''v10'', ascii ''courses''] \<and>
   \<not> sublist [ascii ''api'', ascii ''v1''] (split_at 0x2F (ascii ''/api/v10/courses'')) \<and>
   normalize_endpoint (ascii ''/api/v10/courses'') = ascii ''/api/v10/courses'' \<and>
   normalize_endpoint (ascii ''/courses/x/api/v1/modules'') = ascii ''/courses/x/api/v1/modules'' \<and>
   \<not> startsWith (normalize_endpoint (ascii ''/courses/x/api/v1/modules'')) (ascii ''/api/v1'') \<and>
   map url (sent (snd (getCourseModules (constructor DEFAULT_SETTINGS) (JStr (ascii ''x/api/v1''))
      (simulated \<lparr>status = 200, text = [], json = ()\<rparr> :: (unit, unit) network)))) =
     [ascii ''https://canvas.instructure.com/courses/x/api/v1/modules?per_page=50'']"
  by code_simp

section \<open>The order of the properties of an object\<close>

lemma mset_Object_entries: "mset (Object_entries obj) = mset obj"
  by (simp add: Object_entries_def)

lemma length_Object_entries: "length (Object_entries obj) = length obj"
  using mset_Object_entries [of obj] by (rule mset_eq_length)

lemma Object_entries_Nil_iff: "Object_entries obj = [] \<longleftrightarrow> obj = []"
  using length_Object_entries [of obj] by (metis length_0_conv)

lemma Object_entries_others:
  "filter (\<lambda>p. array_index (fst p) = None) (Object_entries obj) =
   filter (\<lambda>p. array_index (fst p) = None) obj"
proof -
  have "filter (\<lambda>p. array_index (fst p) = None)
      (filter (\<lambda>p. array_index (fst p) \<noteq> None) obj) = []"
    by (induction obj) auto
  then show ?thesis
    by (simp add: Object_entries_def filter_sort del: filter_filter)
qed



section \<open>The request URL and the proxy\<close>

lemma build_url_eq:
  "build_url api endpoint params =
    apiUrl api @ endpoint @ (if params = [] then [] else ascii ''?'' @ query_string params)"
  by (simp add: build_url_def Object_keys_def Object_entries_Nil_iff)

lemma request_sent_url:
  fixes net :: "('e, 'j) network"
  assumes "(proxy_url api (build_url api (normalize_endpoint endpoint) params) :: 'e error + jsstring)
             = Inr final"
  shows "map url (sent (snd (request api endpoint m params data net))) = map url (sent net) @ [final]"
  using assms by (simp add: request_unfold Let_def)

lemma request_not_sent:
  fixes net :: "('e, 'j) network"
  assumes "(proxy_url api (build_url api (normalize_endpoint endpoint) params) :: 'e error + jsstring)
             = Inl e"
  shows "request api endpoint m params data net = (Inl e, net)"
  using assms by (simp add: request_unfold)

text \<open>
  C9. With the proxy switched on and an empty proxy URL, a request is not wrapped: it
  does exactly what it does with the proxy switched off, and the URL it is sent to is
  the base URL, the normalized path and, when there are parameters, the query string.
\<close>

theorem empty_proxy_url_no_wrapping:
  fixes net :: "('e, 'j) network"
  assumes "useProxy api" and "corsProxyUrl api = []"
  shows "request api endpoint m params data net =
           request (api\<lparr>useProxy := False\<rparr>) endpoint m params data net \<and>
         map url (sent (snd (request api endpoint m params data net))) =
           map url (sent net) @
             [apiUrl api @ normalize_endpoint endpoint @
                (if params = [] then [] else ascii ''?'' @ query_string params)]"
proof -
  have "(proxy_url api (build_url api (normalize_endpoint endpoint) params) :: 'e error + jsstring) =
          Inr (build_url api (normalize_endpoint endpoint) params)"
    using assms by (simp add: proxy_url_def)
  then have "map url (sent (snd (request api endpoint m params data net))) =
      map url (sent net) @ [build_url api (normalize_endpoint endpoint) params]"
    by (rule request_sent_url)
  moreover have "request api endpoint m params data net =
           request (api\<lparr>useProxy := False\<rparr>) endpoint m params data net"
    using assms by (simp add: request_unfold proxy_url_def build_url_def)
  ultimately show ?thesis unfolding build_url_eq by blast
qed

theorem empty_proxy_url_no_wrapping_witness:
  "map url (sent (snd (request
      (constructor (DEFAULT_SETTINGS\<lparr>MyPluginSettings.useProxy := True,
                                     MyPluginSettings.corsProxyUrl := []\<rparr>))
      (ascii ''/courses'') (ascii ''GET'') [(ascii ''per_page'', JNum 50)] JNull
      (simulated \<lparr>status = 200, text = [], json = ()\<rparr> :: (unit, unit) network)))) =
   [ascii ''https://canvas.instructure.com/api/v1/courses?per_page=50'']"
proof -
  let ?api = "constructor (DEFAULT_SETTINGS\<lparr>MyPluginSettings.useProxy := True,
                                     MyPluginSettings.corsProxyUrl := []\<rparr>)"
  let ?net = "simulated \<lparr>status = 200, text = [], json = ()\<rparr> :: (unit, unit) network"
  let ?params = "[(ascii ''per_page'', JNum 50)]"
  have on: "useProxy ?api" by (simp add: constructor_def)
  have empty: "corsProxyUrl ?api = []" by (simp add: constructor_def)
  have target: "map url (sent ?net) @
      [apiUrl ?api @ normalize_endpoint (ascii ''/courses'') @
         (if ?params = [] then [] else ascii ''?'' @ query_string ?params)] =
      [ascii ''https://canvas.instructure.com/api/v1/courses?per_page=50'']"
    by code_simp
  from empty_proxy_url_no_wrapping [OF on empty, of "ascii ''/courses''" "ascii ''GET''" ?params
      JNull ?net, THEN conjunct2] target
  show ?thesis by simp
qed

text \<open>
  C3, as the code has it. With the proxy switched off, a request is sent to the base
  URL, the normalized path and, when there are parameters, \<^verbatim>\<open>?\<close> and the query string.
  With the proxy switched on and a proxy URL that is not empty, it is sent to the proxy
  URL followed by \<^verbatim>\<open>encodeURIComponent\<close> of that same URL; where \<^verbatim>\<open>encodeURIComponent\<close>
  throws, nothing is sent and the request rejects with the \<^verbatim>\<open>URIError\<close>.
\<close>

theorem request_url_proxy:
  fixes net :: "('e, 'j) network"
  shows
  "(\<not> useProxy api \<longrightarrow>
      map url (sent (snd (request api endpoint m params data net))) =
        map url (sent net) @
          [apiUrl api @ normalize_endpoint endpoint @
             (if params = [] then [] else ascii ''?'' @ query_string params)]) \<and>
   (useProxy api \<and> corsProxyUrl api \<noteq> [] \<longrightarrow>
      (case encodeURIComponent
              (apiUrl api @ normalize_endpoint endpoint @
                 (if params = [] then [] else ascii ''?'' @ query_string params)) of
         Some encoded \<Rightarrow>
           map url (sent (snd (request api endpoint m params data net))) =
             map url (sent net) @ [corsProxyUrl api @ encoded]
       | None \<Rightarrow> request api endpoint m params data net = (Inl URIError, net)))"
proof (intro conjI impI)
  assume "\<not> useProxy api"
  then have "(proxy_url api (build_url api (normalize_endpoint endpoint) params) :: 'e error + jsstring) =
          Inr (build_url api (normalize_endpoint endpoint) params)"
    by (simp add: proxy_url_def)
  then have "map url (sent (snd (request api endpoint m params data net))) =
      map url (sent net) @ [build_url api (normalize_endpoint endpoint) params]"
    by (rule request_sent_url)
  then show "map url (sent (snd (request api endpoint m params data net))) =
        map url (sent net) @
          [apiUrl api @ normalize_endpoint endpoint @
             (if params = [] then [] else ascii ''?'' @ query_string params)]"
    unfolding build_url_eq .
next
  let ?target = "apiUrl api @ normalize_endpoint endpoint @
                 (if params = [] then [] else ascii ''?'' @ query_string params)"
  assume on: "useProxy api \<and> corsProxyUrl api \<noteq> []"
  show "case encodeURIComponent ?target of
         Some encoded \<Rightarrow>
           map url (sent (snd (request api endpoint m params data net))) =
             map url (sent net) @ [corsProxyUrl api @ encoded]
       | None \<Rightarrow> request api endpoint m params data net = (Inl URIError, net)"
  proof (cases "encodeURIComponent ?target")
    case None
    with on have "(proxy_url api (build_url api (normalize_endpoint endpoint) params) :: 'e error + jsstring)
        = Inl URIError"
      unfolding build_url_eq by (simp add: proxy_url_def)
    then have "request api endpoint m params data net = (Inl URIError, net)"
      by (rule request_not_sent)
    with None show ?thesis by (simp only: option.case)
  next
    case (Some encoded)
    with on have "(proxy_url api (build_url api (normalize_endpoint endpoint) params) :: 'e error + jsstring) =
        Inr (corsProxyUrl api @ encoded)"
      unfolding build_url_eq by (simp add: proxy_url_def)
    then have "map url (sent (snd (request api endpoint m params data net))) =
      map url (sent net) @ [corsProxyUrl api @ encoded]"
      by (rule request_sent_url)
    with Some show ?thesis by (simp only: option.case)
  qed
qed

theorem request_url_proxy_witness:
  "map url (sent (snd (request (constructor DEFAULT_SETTINGS)
      (ascii ''/courses'') (ascii ''GET'') [(ascii ''per_page'', JNum 50)] JNull
      (simulated \<lparr>status = 200, text = [], json = ()\<rparr> :: (unit, unit) network)))) =
   [ascii ''https://canvas.instructure.com/api/v1/courses?per_page=50''] \<and>
   map url (sent (snd (request
      (constructor (DEFAULT_SETTINGS\<lparr>MyPluginSettings.useProxy := True\<rparr>))
      (ascii ''/courses'') (ascii ''GET'') [(ascii ''per_page'', JNum 50)] JNull
      (simulated \<lparr>status = 200, text = [], json = ()\<rparr> :: (unit, unit) network)))) =
   [ascii ''https://cors-anywhere.herokuapp.com/https%3A%2F%2Fcanvas.instructure.com%2Fapi%2Fv1%2Fcourses%3Fper_page%3D50''] \<and>
   request
      (constructor (DEFAULT_SETTINGS\<lparr>canvasApiUrl := [0xD800],
                                     MyPluginSettings.useProxy := True\<rparr>))
      (ascii ''/courses'') (ascii ''GET'') [(ascii ''per_page'', JNum 50)] JNull
      (simulated \<lparr>status = 200, text = [], json = ()\<rparr> :: (unit, unit) network) =
   (Inl URIError, simulated \<lparr>status = 200, text = [], json = ()\<rparr>)"
proof -
  let ?off = "constructor DEFAULT_SETTINGS"
  let ?on = "constructor (DEFAULT_SETTINGS\<lparr>MyPluginSettings.useProxy := True\<rparr>)"
  let ?bad = "constructor (DEFAULT_SETTINGS\<lparr>canvasApiUrl := [0xD800],
                                     MyPluginSettings.useProxy := True\<rparr>)"
  let ?net = "simulated \<lparr>status = 200, text = [], json = ()\<rparr> :: (unit, unit) network"
  let ?params = "[(ascii ''per_page'', JNum 50)]"
  have off: "\<not> useProxy ?off" by (simp add: constructor_def DEFAULT_SETTINGS_def)
  have t_off: "map url (sent ?net) @
      [apiUrl ?off @ normalize_endpoint (ascii ''/courses'') @
         (if ?params = [] then [] else ascii ''?'' @ query_string ?params)] =
      [ascii ''https://canvas.instructure.com/api/v1/courses?per_page=50'']"
    by code_simp
  have A: "map url (sent (snd (request ?off (ascii ''/courses'') (ascii ''GET'') ?params JNull ?net))) =
      [ascii ''https://canvas.instructure.com/api/v1/courses?per_page=50'']"
    using request_url_proxy [of ?off "ascii ''/courses''" "ascii ''GET''" ?params JNull ?net,
        THEN conjunct1, rule_format, OF off] t_off
    by simp
  have on: "useProxy ?on \<and> corsProxyUrl ?on \<noteq> []"
    by (simp add: constructor_def DEFAULT_SETTINGS_def ascii_def)
  have t_on: "encodeURIComponent
      (apiUrl ?on @ normalize_endpoint (ascii ''/courses'') @
         (if ?params = [] then [] else ascii ''?'' @ query_string ?params)) =
      Some (ascii ''https%3A%2F%2Fcanvas.instructure.com%2Fapi%2Fv1%2Fcourses%3Fper_page%3D50'')"
    by code_simp
  have p_on: "map url (sent ?net) @
      [corsProxyUrl ?on @
       ascii ''https%3A%2F%2Fcanvas.instructure.com%2Fapi%2Fv1%2Fcourses%3Fper_page%3D50''] =
      [ascii ''https://cors-anywhere.herokuapp.com/https%3A%2F%2Fcanvas.instructure.com%2Fapi%2Fv1%2Fcourses%3Fper_page%3D50'']"
    by code_simp
  have B: "map url (sent (snd (request ?on (ascii ''/courses'') (ascii ''GET'') ?params JNull ?net))) =
      [ascii ''https://cors-anywhere.herokuapp.com/https%3A%2F%2Fcanvas.instructure.com%2Fapi%2Fv1%2Fcourses%3Fper_page%3D50'']"
    using request_url_proxy [of ?on "ascii ''/courses''" "ascii ''GET''" ?params JNull ?net,
        THEN conjunct2, rule_format, OF on] p_on
    by (simp only: t_on option.case)
  have bad: "useProxy ?bad \<and> corsProxyUrl ?bad \<noteq> []"
    by (simp add: constructor_def DEFAULT_SETTINGS_def ascii_def)
  have t_bad: "encodeURIComponent
      (apiUrl ?bad @ normalize_endpoint (ascii ''/courses'') @
         (if ?params = [] then [] else ascii ''?'' @ query_string ?params)) = None"
    by code_simp
  have C: "request ?bad (ascii ''/courses'') (ascii ''GET'') ?params JNull ?net = (Inl URIError, ?net)"
    using request_url_proxy [of ?bad "ascii ''/courses''" "ascii ''GET''" ?params JNull ?net,
        THEN conjunct2, rule_format, OF bad]
    by (simp only: t_bad option.case)
  from A B C show ?thesis by (intro conjI)
qed

text \<open>
  The claim C3 as it is written fails where the proxy is switched on and the proxy URL
  is empty: the request goes to the plain URL, not to its percent-encoding.
\<close>

theorem request_url_proxy_counterexample:
  "useProxy (constructor (DEFAULT_SETTINGS\<lparr>MyPluginSettings.useProxy := True,
                                          MyPluginSettings.corsProxyUrl := []\<rparr>)) \<and>
   encodeURIComponent
     (apiUrl (constructor (DEFAULT_SETTINGS\<lparr>MyPluginSettings.useProxy := True,
                                             MyPluginSettings.corsProxyUrl := []\<rparr>))
      @ normalize_endpoint (ascii ''/courses'')) =
     Some (ascii ''https%3A%2F%2Fcanvas.instructure.com%2Fapi%2Fv1%2Fcourses'') \<and>
   map url (sent (snd (request
      (constructor (DEFAULT_SETTINGS\<lparr>MyPluginSettings.useProxy := True,
                                     MyPluginSettings.corsProxyUrl := []\<rparr>))
      (ascii ''/courses'') (ascii ''GET'') [] JNull
      (simulated \<lparr>status = 200, text = [], json = ()\<rparr> :: (unit, unit) network)))) =
     [ascii ''https://canvas.instructure.com/api/v1/courses''] \<and>
   [ascii ''https://canvas.instructure.com/api/v1/courses''] \<noteq>
     [corsProxyUrl (constructor (DEFAULT_SETTINGS\<lparr>MyPluginSettings.useProxy := True,
                                                   MyPluginSettings.corsProxyUrl := []\<rparr>))
      @ ascii ''https%3A%2F%2Fcanvas.instructure.com%2Fapi%2Fv1%2Fcourses'']"
  by code_simp

section \<open>The query string\<close>


















section \<open>What a request sends and what it returns\<close>

lemma request_sent:
  fixes net :: "('e, 'j) network"
  shows "sent (snd (request api endpoint m params data net)) =
    sent net @
      (case (proxy_url api (build_url api (normalize_endpoint endpoint) params) :: 'e error + jsstring) of
         Inl e \<Rightarrow> []
       | Inr final \<Rightarrow>
           [\<lparr>url = final, method = m,
             headers = [(ascii ''Authorization'', ascii ''Bearer '' @ accessToken api),
                        (ascii ''Content-Type'', ascii ''application/json'')],
             body = (if truthy data then JSON_stringify data else None), throw = False\<rparr>])"
  by (simp add: request_unfold Let_def split: sum.splits)

lemma request_outcome:
  fixes net :: "('e, 'j) network"
  assumes "snd (request api endpoint m params data net) = net\<lparr>sent := sent net @ [rq]\<rparr>"
  shows "fst (request api endpoint m params data net) =
    (case respond net rq of
       Inl e \<Rightarrow> Inl (RequestUrlRejected e)
     | Inr response \<Rightarrow>
         if status response \<ge> 400 then
           Inl (Error (ascii ''Canvas API request failed: '' @ digits (status response)
                       @ ascii '' - '' @ text response))
         else Inr (json response))"
proof (cases "proxy_url api (build_url api (normalize_endpoint endpoint) params) :: 'e error + jsstring")
  case (Inl e)
  then have "snd (request api endpoint m params data net) = net"
    by (simp add: request_unfold)
  with assms have "sent net = sent (net\<lparr>sent := sent net @ [rq]\<rparr>)" by simp
  then show ?thesis by simp
next
  case (Inr final)
  let ?rq = "\<lparr>url = final, method = m,
             headers = [(ascii ''Authorization'', ascii ''Bearer '' @ accessToken api),
                        (ascii ''Content-Type'', ascii ''application/json'')],
             body = (if truthy data then JSON_stringify data else None), throw = False\<rparr>"
  from Inr have s: "snd (request api endpoint m params data net) = net\<lparr>sent := sent net @ [?rq]\<rparr>"
    by (simp add: request_unfold Let_def)
  with assms have "sent (net\<lparr>sent := sent net @ [?rq]\<rparr>) = sent (net\<lparr>sent := sent net @ [rq]\<rparr>)"
    by simp
  then have "rq = ?rq" by simp
  with Inr show ?thesis by (simp add: request_unfold Let_def)
qed


lemma request_sent_urls:
  fixes net :: "('e, 'j) network"
  shows "map url (sent (snd (request api endpoint m params data net))) =
    map url (sent net) @
      (case (proxy_url api (build_url api (normalize_endpoint endpoint) params) :: 'e error + jsstring) of
         Inl e \<Rightarrow> [] | Inr final \<Rightarrow> [final])"
  by (simp add: request_sent split: sum.splits)

lemma request_sent_methods:
  fixes net :: "('e, 'j) network"
  shows "map method (sent (snd (request api endpoint m params data net))) =
    map method (sent net) @
      (case (proxy_url api (build_url api (normalize_endpoint endpoint) params) :: 'e error + jsstring) of
         Inl e \<Rightarrow> [] | Inr final \<Rightarrow> [m])"
  by (simp add: request_sent split: sum.splits)




section \<open>The requests for courses and grades\<close>

lemma courses_endpoint: "normalize_endpoint (ascii ''/courses'') = ascii ''/api/v1/courses''"
  by code_simp

text \<open>
  C7. \<^verbatim>\<open>getCourses()\<close> sends its request to the base URL followed by
  \<^verbatim>\<open>/api/v1/courses?per_page=50\<close> (through the proxy when there is one): the query is
  \<^verbatim>\<open>per_page=50\<close> and nothing else, so neither \<^verbatim>\<open>enrollment_type\<close> nor \<^verbatim>\<open>enrollment_state\<close> is
  in it. \<^verbatim>\<open>getCourses('student', 'active')\<close> sends its request to the base URL followed by
  \<^verbatim>\<open>/api/v1/courses?per_page=50&enrollment_type=student&enrollment_state=active\<close>.
\<close>

theorem getCourses_query:
  fixes net :: "('e, 'j) network"
  shows
  "map url (sent (snd (getCourses api None None net))) =
     map url (sent net) @
       (case (proxy_url api (apiUrl api @ ascii ''/api/v1/courses'' @ ascii ''?'' @
                 ascii ''per_page=50'') :: 'e error + jsstring) of
          Inl e \<Rightarrow> [] | Inr final \<Rightarrow> [final]) \<and>
   map url (sent (snd (getCourses api (Some (ascii ''student'')) (Some (ascii ''active'')) net))) =
     map url (sent net) @
       (case (proxy_url api (apiUrl api @ ascii ''/api/v1/courses'' @ ascii ''?'' @
                 ascii ''per_page=50&enrollment_type=student&enrollment_state=active'')
               :: 'e error + jsstring) of
          Inl e \<Rightarrow> [] | Inr final \<Rightarrow> [final])"
proof -
  have none: "getCourses api None None net =
      request api (ascii ''/courses'') (ascii ''GET'') [(ascii ''per_page'', JNum 50)] JNull net"
    by (simp add: getCourses_def)
  have q1: "query_string [(ascii ''per_page'', JNum 50)] = ascii ''per_page=50''"
    by code_simp
  have params: "set_property (set_property [(ascii ''per_page'', JNum 50)]
        (ascii ''enrollment_type'') (JStr (ascii ''student'')))
        (ascii ''enrollment_state'') (JStr (ascii ''active'')) =
      [(ascii ''per_page'', JNum 50), (ascii ''enrollment_type'', JStr (ascii ''student'')),
       (ascii ''enrollment_state'', JStr (ascii ''active''))]"
    by code_simp
  have ne: "ascii ''student'' \<noteq> []" "ascii ''active'' \<noteq> []"
    by (simp_all add: ascii_def)
  have both: "getCourses api (Some (ascii ''student'')) (Some (ascii ''active'')) net =
      request api (ascii ''/courses'') (ascii ''GET'')
        [(ascii ''per_page'', JNum 50), (ascii ''enrollment_type'', JStr (ascii ''student'')),
         (ascii ''enrollment_state'', JStr (ascii ''active''))] JNull net"
    unfolding getCourses_def by (simp add: Let_def ne params del: set_property.simps)
  have q2: "query_string
        [(ascii ''per_page'', JNum 50), (ascii ''enrollment_type'', JStr (ascii ''student'')),
         (ascii ''enrollment_state'', JStr (ascii ''active''))] =
      ascii ''per_page=50&enrollment_type=student&enrollment_state=active''"
    by code_simp
  show ?thesis
    unfolding none both request_sent_urls build_url_eq courses_endpoint q1 q2
    by simp
qed

theorem getCourses_query_witness:
  "map url (sent (snd (getCourses (constructor DEFAULT_SETTINGS) None None
      (simulated \<lparr>status = 200, text = [], json = ()\<rparr> :: (unit, unit) network)))) =
     [ascii ''https://canvas.instructure.com/api/v1/courses?per_page=50''] \<and>
   map url (sent (snd (getCourses (constructor DEFAULT_SETTINGS)
      (Some (ascii ''student'')) (Some (ascii ''active''))
      (simulated \<lparr>status = 200, text = [], json = ()\<rparr> :: (unit, unit) network)))) =
     [ascii ''https://canvas.instructure.com/api/v1/courses?per_page=50&enrollment_type=student&enrollment_state=active'']"
proof -
  let ?api = "constructor DEFAULT_SETTINGS"
  let ?net = "simulated \<lparr>status = 200, text = [], json = ()\<rparr> :: (unit, unit) network"
  have a: "map url (sent ?net) @
      (case (proxy_url ?api (apiUrl ?api @ ascii ''/api/v1/courses'' @ ascii ''?'' @
                ascii ''per_page=50'') :: unit error + jsstring) of
         Inl e \<Rightarrow> [] | Inr final \<Rightarrow> [final]) =
      [ascii ''https://canvas.instructure.com/api/v1/courses?per_page=50'']"
    by code_simp
  have b: "map url (sent ?net) @
      (case (proxy_url ?api (apiUrl ?api @ ascii ''/api/v1/courses'' @ ascii ''?'' @
                ascii ''per_page=50&enrollment_type=student&enrollment_state=active'')
              :: unit error + jsstring) of
         Inl e \<Rightarrow> [] | Inr final \<Rightarrow> [final]) =
      [ascii ''https://canvas.instructure.com/api/v1/courses?per_page=50&enrollment_type=student&enrollment_state=active'']"
    by code_simp
  from getCourses_query [of ?api ?net] show ?thesis
    unfolding a b .
qed

text \<open>
  C8. \<^verbatim>\<open>getCourseGrades()\<close> is \<^verbatim>\<open>_request\<close> on \<^verbatim>\<open>/courses\<close> with the method \<^verbatim>\<open>GET\<close> and the
  parameters \<^verbatim>\<open>include\<close> (the array of \<^verbatim>\<open>total_scores\<close> and \<^verbatim>\<open>current_grading_period_scores\<close>),
  \<^verbatim>\<open>enrollment_type=student\<close>, \<^verbatim>\<open>enrollment_state=active\<close> and \<^verbatim>\<open>per_page=50\<close>, in this order.
  The request it sends is a \<^verbatim>\<open>GET\<close> to the base URL followed by \<^verbatim>\<open>/api/v1/courses\<close> and the
  query string of these parameters (through the proxy when there is one), and when the
  response has a status below 400 the call resolves with its \<^verbatim>\<open>json\<close>.
\<close>

theorem getCourseGrades_request:
  fixes net :: "('e, 'j) network"
  shows
  "getCourseGrades api net =
     request api (ascii ''/courses'') (ascii ''GET'')
       [(ascii ''include'',
           JArr [JStr (ascii ''total_scores''), JStr (ascii ''current_grading_period_scores'')]),
        (ascii ''enrollment_type'', JStr (ascii ''student'')),
        (ascii ''enrollment_state'', JStr (ascii ''active'')),
        (ascii ''per_page'', JNum 50)] JNull net \<and>
   map url (sent (snd (getCourseGrades api net))) =
     map url (sent net) @
       (case (proxy_url api (apiUrl api @ ascii ''/api/v1/courses'' @ ascii ''?'' @
                 ascii ''include=total_scores%2Ccurrent_grading_period_scores&enrollment_type=student&enrollment_state=active&per_page=50'')
               :: 'e error + jsstring) of
          Inl e \<Rightarrow> [] | Inr final \<Rightarrow> [final]) \<and>
   map method (sent (snd (getCourseGrades api net))) =
     map method (sent net) @
       (case (proxy_url api (apiUrl api @ ascii ''/api/v1/courses'' @ ascii ''?'' @
                 ascii ''include=total_scores%2Ccurrent_grading_period_scores&enrollment_type=student&enrollment_state=active&per_page=50'')
               :: 'e error + jsstring) of
          Inl e \<Rightarrow> [] | Inr final \<Rightarrow> [ascii ''GET'']) \<and>
   (\<forall>rq response.
      snd (getCourseGrades api net) = net\<lparr>sent := sent net @ [rq]\<rparr> \<and>
      respond net rq = Inr response \<and> status response < 400 \<longrightarrow>
        fst (getCourseGrades api net) = Inr (json response))"
proof -
  let ?params = "[(ascii ''include'',
           JArr [JStr (ascii ''total_scores''), JStr (ascii ''current_grading_period_scores'')]),
        (ascii ''enrollment_type'', JStr (ascii ''student'')),
        (ascii ''enrollment_state'', JStr (ascii ''active'')),
        (ascii ''per_page'', JNum 50)]"
  have q: "query_string ?params =
      ascii ''include=total_scores%2Ccurrent_grading_period_scores&enrollment_type=student&enrollment_state=active&per_page=50''"
    by code_simp
  have u: "build_url api (normalize_endpoint (ascii ''/courses'')) ?params =
      apiUrl api @ ascii ''/api/v1/courses'' @ ascii ''?'' @
        ascii ''include=total_scores%2Ccurrent_grading_period_scores&enrollment_type=student&enrollment_state=active&per_page=50''"
    unfolding build_url_eq courses_endpoint q by simp
  have ok: "\<forall>rq response.
      snd (getCourseGrades api net) = net\<lparr>sent := sent net @ [rq]\<rparr> \<and>
      respond net rq = Inr response \<and> status response < 400 \<longrightarrow>
        fst (getCourseGrades api net) = Inr (json response)"
    unfolding getCourseGrades_def
    using request_outcome [of api "ascii ''/courses''" "ascii ''GET''" ?params JNull net]
    by auto
  show ?thesis
    unfolding getCourseGrades_def [of api net, symmetric]
    using ok
    by (simp add: getCourseGrades_def request_sent_urls request_sent_methods u)
qed

theorem getCourseGrades_request_witness:
  "map url (sent (snd (getCourseGrades (constructor DEFAULT_SETTINGS)
      (simulated \<lparr>status = 200, text = ascii ''[]'', json = ([] :: nat list)\<rparr>
         :: (unit, nat list) network)))) =
     [ascii ''https://canvas.instructure.com/api/v1/courses?include=total_scores%2Ccurrent_grading_period_scores&enrollment_type=student&enrollment_state=active&per_page=50''] \<and>
   map method (sent (snd (getCourseGrades (constructor DEFAULT_SETTINGS)
      (simulated \<lparr>status = 200, text = ascii ''[]'', json = ([] :: nat list)\<rparr>
         :: (unit, nat list) network)))) = [ascii ''GET''] \<and>
   fst (getCourseGrades (constructor DEFAULT_SETTINGS)
      (simulated \<lparr>status = 200, text = ascii ''[]'', json = ([] :: nat list)\<rparr>
         :: (unit, nat list) network)) = Inr []"
proof -
  let ?api = "constructor DEFAULT_SETTINGS"
  let ?r = "\<lparr>status = 200, text = ascii ''[]'', json = ([] :: nat list)\<rparr>"
  let ?net = "simulated ?r :: (unit, nat list) network"
  note inst = getCourseGrades_request [of ?api ?net]
  have off: "\<not> useProxy ?api" by (simp add: constructor_def DEFAULT_SETTINGS_def)
  have a: "map url (sent ?net) @
       (case (proxy_url ?api (apiUrl ?api @ ascii ''/api/v1/courses'' @ ascii ''?'' @
                 ascii ''include=total_scores%2Ccurrent_grading_period_scores&enrollment_type=student&enrollment_state=active&per_page=50'')
               :: unit error + jsstring) of
          Inl e \<Rightarrow> [] | Inr final \<Rightarrow> [final]) =
      [ascii ''https://canvas.instructure.com/api/v1/courses?include=total_scores%2Ccurrent_grading_period_scores&enrollment_type=student&enrollment_state=active&per_page=50'']"
    by code_simp
  have b: "map method (sent ?net) @
       (case (proxy_url ?api (apiUrl ?api @ ascii ''/api/v1/courses'' @ ascii ''?'' @
                 ascii ''include=total_scores%2Ccurrent_grading_period_scores&enrollment_type=student&enrollment_state=active&per_page=50'')
               :: unit error + jsstring) of
          Inl e \<Rightarrow> [] | Inr final \<Rightarrow> [ascii ''GET'']) = [ascii ''GET'']"
    by code_simp
  obtain rq where s: "snd (getCourseGrades ?api ?net) = ?net\<lparr>sent := sent ?net @ [rq]\<rparr>"
    using off by (simp add: getCourseGrades_def request_unfold proxy_url_def Let_def)
  have r: "respond ?net rq = Inr ?r" by (simp add: simulated_def)
  have ok: "status ?r < 400" by simp
  from inst [THEN conjunct2, THEN conjunct2, THEN conjunct2, rule_format,
      OF conjI [OF s conjI [OF r ok]]]
  have C: "fst (getCourseGrades ?api ?net) = Inr []" by simp
  from inst [THEN conjunct2, THEN conjunct1] inst [THEN conjunct2, THEN conjunct2, THEN conjunct1] C
  show ?thesis unfolding a b by (intro conjI)
qed

end
